theory Spec2Isabelle
  imports Main "HOL-Library.Word" "HOL-Library.Sublist"
begin

section \<open>JavaScript strings\<close>

text \<open>
  A JavaScript string is a sequence of UTF-16 code units. The regular expressions of
  \<^verbatim>\<open>harden-markdown.ts\<close> carry no \<^verbatim>\<open>u\<close> flag, so they see code units as well, and
  \<^verbatim>\<open>U+200B\<close> or \<^verbatim>\<open>U+FEFF\<close> is one unit. ASCII literals are written \<open>js ''...''\<close>.
\<close>

type_synonym uchar = "16 word"
type_synonym jsstring = "uchar list"

definition js :: "string \<Rightarrow> jsstring" where
  "js s = map of_char s"

text \<open>
  The class \<^verbatim>\<open>\s\<close> of a regular expression, which is also what \<^verbatim>\<open>trim\<close>,
  \<^verbatim>\<open>trimStart\<close> and \<^verbatim>\<open>trimEnd\<close> strip: the ECMAScript white space and line
  terminator code points.
\<close>

definition isWhiteSpace :: "uchar \<Rightarrow> bool" where
  "isWhiteSpace c \<longleftrightarrow>
     c = 0x09 \<or> c = 0x0A \<or> c = 0x0B \<or> c = 0x0C \<or> c = 0x0D \<or> c = 0x20 \<or> c = 0xA0 \<or>
     c = 0x1680 \<or> (0x2000 \<le> c \<and> c \<le> 0x200A) \<or> c = 0x2028 \<or> c = 0x2029 \<or>
     c = 0x202F \<or> c = 0x205F \<or> c = 0x3000 \<or> c = 0xFEFF"

definition trimStart :: "jsstring \<Rightarrow> jsstring" where
  "trimStart s = dropWhile isWhiteSpace s"

definition trimEnd :: "jsstring \<Rightarrow> jsstring" where
  "trimEnd s = rev (dropWhile isWhiteSpace (rev s))"

definition trim :: "jsstring \<Rightarrow> jsstring" where
  "trim s = trimEnd (trimStart s)"

definition startsWith :: "jsstring \<Rightarrow> jsstring \<Rightarrow> bool" where
  "startsWith s p \<longleftrightarrow> prefix p s"

definition endsWith :: "jsstring \<Rightarrow> jsstring \<Rightarrow> bool" where
  "endsWith s p \<longleftrightarrow> suffix p s"

text \<open>
  \<^verbatim>\<open>String.prototype.toLowerCase\<close>, as far as its result can be told apart by comparing
  it with an ASCII string: the letters \<^verbatim>\<open>A\<close> to \<^verbatim>\<open>Z\<close>, and the two code points
  outside ASCII whose lower case contains an ASCII letter (\<^verbatim>\<open>U+212A\<close> KELVIN SIGN and
  \<^verbatim>\<open>U+0130\<close>). Every other unit outside ASCII is kept; its real lower case is outside
  ASCII too.
\<close>

definition lowerUnit :: "uchar \<Rightarrow> jsstring" where
  "lowerUnit c =
     (if 0x41 \<le> c \<and> c \<le> 0x5A then [c + 0x20]
      else if c = 0x212A then [0x6B]
      else if c = 0x0130 then [0x69, 0x0307]
      else [c])"

definition toLowerCase :: "jsstring \<Rightarrow> jsstring" where
  "toLowerCase s = concat (map lowerUnit s)"

text \<open>
  A value of type \<^verbatim>\<open>unknown\<close>: a string, or anything else, of which the code only
  reads the truthiness (\<^verbatim>\<open>null\<close>, \<^verbatim>\<open>undefined\<close>, \<^verbatim>\<open>0\<close> are falsy; \<^verbatim>\<open>123\<close>,
  \<^verbatim>\<open>{}\<close> are truthy).
\<close>

datatype js_unknown = JString jsstring | JNonString bool

fun truthy :: "js_unknown \<Rightarrow> bool" where
  "truthy (JString s) = (s \<noteq> [])"
| "truthy (JNonString b) = b"

section \<open>The hardened URL transformer (harden-markdown.ts)\<close>

text \<open>
  The fields of the platform's \<^verbatim>\<open>URL\<close> object that the transformer reads. The parser
  itself, \<^verbatim>\<open>new URL(url)\<close> and \<^verbatim>\<open>new URL(url, base)\<close>, belongs to the platform and is
  a parameter \<open>newURL\<close> of the model: \<open>newURL url None\<close> is the parse without a base,
  \<open>newURL url (Some base)\<close> the one with a base, and \<open>None\<close> as a result is the
  \<^verbatim>\<open>TypeError\<close> that the code catches.
\<close>

record URL =
  href :: jsstring
  origin :: jsstring
  protocol :: jsstring
  pathname :: jsstring
  search :: jsstring
  hash :: jsstring

type_synonym url_parser = "jsstring \<Rightarrow> jsstring option \<Rightarrow> URL option"

definition dangerousTokens :: "jsstring list" where
  "dangerousTokens = map js
     [''javascript'', ''data'', ''vbscript'', ''about'', ''chrome'', ''chrome-extension'',
      ''moz-extension'', ''file'', ''blob'', ''filesystem'', ''jar'', ''ms-appx'',
      ''ms-appx-web'', ''res'', ''resource'', ''app'', ''intent'', ''android-app'',
      ''mailto'', ''tel'', ''sms'', ''ftp'', ''ws'', ''wss'', ''jscript'', ''ecmascript'',
      ''livescript'']"

definition dangerous :: "jsstring list" where
  "dangerous = map js
     [''javascript:'', ''data:'', ''vbscript:'', ''about:'', ''chrome:'', ''chrome-extension:'',
      ''moz-extension:'', ''file:'', ''blob:'', ''filesystem:'', ''jar:'', ''ms-appx:'',
      ''ms-appx-web:'', ''res:'', ''resource:'', ''app:'', ''intent:'', ''android-app:'',
      ''mailto:'', ''tel:'', ''sms:'', ''ftp:'', ''ws:'', ''wss:'', ''jscript:'', ''ecmascript:'',
      ''livescript:'']"

definition isDangerousProtocol :: "jsstring \<Rightarrow> bool" where
  "isDangerousProtocol p \<longleftrightarrow> toLowerCase p \<in> set dangerous"

definition parseUrl :: "url_parser \<Rightarrow> jsstring option \<Rightarrow> js_unknown \<Rightarrow> URL option" where
  "parseUrl newURL defaultOrigin url =
     (case url of
        JNonString _ \<Rightarrow> None
      | JString s \<Rightarrow>
          (case newURL s None of
             Some urlObject \<Rightarrow> Some urlObject
           | None \<Rightarrow>
               (case defaultOrigin of
                  None \<Rightarrow> None
                | Some d \<Rightarrow> if d \<noteq> [] then newURL s (Some d) else None)))"

definition isPathRelativeUrl :: "js_unknown \<Rightarrow> bool" where
  "isPathRelativeUrl url =
     (case url of JNonString _ \<Rightarrow> False | JString s \<Rightarrow> startsWith s (js ''/''))"

text \<open>The class \<^verbatim>\<open>[\x00-\x08\x0B\x0C\x0E-\x1F\x7F]\<close>.\<close>

definition isControlChar :: "uchar \<Rightarrow> bool" where
  "isControlChar c \<longleftrightarrow>
     c \<le> 0x08 \<or> c = 0x0B \<or> c = 0x0C \<or> (0x0E \<le> c \<and> c \<le> 0x1F) \<or> c = 0x7F"

text \<open>The class \<^verbatim>\<open>[\u200B-\u200D\uFEFF]\<close>.\<close>

definition isZeroWidthChar :: "uchar \<Rightarrow> bool" where
  "isZeroWidthChar c \<longleftrightarrow> (0x200B \<le> c \<and> c \<le> 0x200D) \<or> c = 0xFEFF"

text \<open>
  The third expression, \<^verbatim>\<open>/(?:javascript|data|...|livescript)\s*:/i\<close>. Under the flag
  \<^verbatim>\<open>i\<close> (and no \<^verbatim>\<open>u\<close>) two code units match when their canonical forms are equal,
  the canonical form being the upper case, except that a unit from 128 on is never taken
  to one below 128. The pattern has ASCII units only, so the canonical form matters on
  ASCII alone, where it is \<open>canonicalize\<close>.
\<close>

definition canonicalize :: "uchar \<Rightarrow> uchar" where
  "canonicalize c = (if 0x61 \<le> c \<and> c \<le> 0x7A then c - 0x20 else c)"

text \<open>One alternative of the group at the head of \<open>s\<close>: the rest of \<open>s\<close> behind it.\<close>

fun matchToken :: "jsstring \<Rightarrow> jsstring \<Rightarrow> jsstring option" where
  "matchToken [] s = Some s"
| "matchToken (p # ps) [] = None"
| "matchToken (p # ps) (c # cs) =
     (if canonicalize p = canonicalize c then matchToken ps cs else None)"

text \<open>
  \<^verbatim>\<open>\s*:\<close> at the head of \<open>s\<close>. The colon is no white space, so the greedy star
  can only succeed having consumed the whole run of white space.
\<close>

definition matchSpaceColon :: "jsstring \<Rightarrow> bool" where
  "matchSpaceColon s =
     (case dropWhile isWhiteSpace s of [] \<Rightarrow> False | c # _ \<Rightarrow> c = 0x3A)"

definition matchProtocolHere :: "jsstring \<Rightarrow> bool" where
  "matchProtocolHere s =
     list_ex (\<lambda>t. case matchToken t s of None \<Rightarrow> False | Some r \<Rightarrow> matchSpaceColon r)
       dangerousTokens"

text \<open>\<^verbatim>\<open>test\<close> looks for a match starting at any index.\<close>

fun protocolRegexTest :: "jsstring \<Rightarrow> bool" where
  "protocolRegexTest [] = matchProtocolHere []"
| "protocolRegexTest (c # cs) = (matchProtocolHere (c # cs) \<or> protocolRegexTest cs)"

definition hasSuspiciousPatterns :: "jsstring \<Rightarrow> bool" where
  "hasSuspiciousPatterns url =
     (if list_ex isControlChar url then True
      else if list_ex isZeroWidthChar url then True
      else if protocolRegexTest url then True
      else False)"

definition incompleteLink :: jsstring where
  "incompleteLink = js ''streamdown:incomplete-link''"

text \<open>The function given to \<^verbatim>\<open>allowedPrefixes.some\<close>.\<close>

definition prefixMatches :: "url_parser \<Rightarrow> jsstring option \<Rightarrow> URL \<Rightarrow> jsstring \<Rightarrow> bool" where
  "prefixMatches newURL defaultOrigin parsedUrl allowedPrefix =
     (case parseUrl newURL defaultOrigin (JString allowedPrefix) of
        None \<Rightarrow> False
      | Some parsedPrefix \<Rightarrow>
          if origin parsedPrefix \<noteq> origin parsedUrl then False
          else startsWith (href parsedUrl) (href parsedPrefix))"

text \<open>
  What both accepting branches return: path, query and fragment for an input that was
  path-relative, the href otherwise.
\<close>

definition relativeOrHref :: "bool \<Rightarrow> URL \<Rightarrow> jsstring" where
  "relativeOrHref inputWasRelative parsedUrl =
     (if inputWasRelative then pathname parsedUrl @ search parsedUrl @ hash parsedUrl
      else href parsedUrl)"

text \<open>
  \<^verbatim>\<open>createHardenedUrlTransformer(allowedPrefixes, defaultOrigin)\<close> applied to \<open>url\<close>;
  \<open>None\<close> is \<^verbatim>\<open>null\<close>.
\<close>

definition transformUrl ::
  "url_parser \<Rightarrow> jsstring list \<Rightarrow> jsstring option \<Rightarrow> js_unknown \<Rightarrow> jsstring option" where
  "transformUrl newURL allowedPrefixes defaultOrigin url =
     (if \<not> truthy url then None
      else if url = JString incompleteLink then Some incompleteLink
      else case url of
        JNonString _ \<Rightarrow> None
      | JString s \<Rightarrow>
          if hasSuspiciousPatterns s then None
          else case parseUrl newURL defaultOrigin url of
            None \<Rightarrow> None
          | Some parsedUrl \<Rightarrow>
              if isDangerousProtocol (protocol parsedUrl) then None
              else
                let inputWasRelative = isPathRelativeUrl url in
                if list_ex (prefixMatches newURL defaultOrigin parsedUrl) allowedPrefixes
                then Some (relativeOrHref inputWasRelative parsedUrl)
                else if js ''*'' \<in> set allowedPrefixes then
                  if protocol parsedUrl \<noteq> js ''https:'' \<and> protocol parsedUrl \<noteq> js ''http:''
                  then None
                  else Some (relativeOrHref inputWasRelative parsedUrl)
                else None)"

text \<open>
  \<^verbatim>\<open>validateMarkdownOptions\<close>, which the components run on their properties before they
  build a transformer. An option that is left out takes its default; the thrown
  \<^verbatim>\<open>Error\<close> is the left summand. \<open>hasSpecificPrefixes\<close> is the expression that
  the code writes twice, for \<^verbatim>\<open>hasSpecificLinkPrefixes\<close> and for
  \<^verbatim>\<open>hasSpecificImagePrefixes\<close>: the list is not empty and not every entry is the
  wildcard marker.
\<close>

record HardenSvelteMarkdownOptions =
  defaultOriginOption :: "jsstring option"
  allowedLinkPrefixesOption :: "jsstring list option"
  allowedImagePrefixesOption :: "jsstring list option"

record ValidatedMarkdownOptions =
  validDefaultOrigin :: jsstring
  validAllowedLinkPrefixes :: "jsstring list"
  validAllowedImagePrefixes :: "jsstring list"

datatype options_error = DefaultOriginRequired

definition hasSpecificPrefixes :: "jsstring list \<Rightarrow> bool" where
  "hasSpecificPrefixes allowed \<longleftrightarrow>
     length allowed > 0 \<and> \<not> list_all (\<lambda>p. p = js ''*'') allowed"

definition validateMarkdownOptions ::
  "HardenSvelteMarkdownOptions \<Rightarrow> options_error + ValidatedMarkdownOptions" where
  "validateMarkdownOptions options =
     (let origin0 = (case defaultOriginOption options of None \<Rightarrow> [] | Some d \<Rightarrow> d);
          linkPrefixes = (case allowedLinkPrefixesOption options of None \<Rightarrow> [] | Some l \<Rightarrow> l);
          imagePrefixes = (case allowedImagePrefixesOption options of None \<Rightarrow> [] | Some l \<Rightarrow> l);
          hasSpecificLinkPrefixes = hasSpecificPrefixes linkPrefixes;
          hasSpecificImagePrefixes = hasSpecificPrefixes imagePrefixes
      in if origin0 = [] \<and> (hasSpecificLinkPrefixes \<or> hasSpecificImagePrefixes)
         then Inl DefaultOriginRequired
         else Inr \<lparr>validDefaultOrigin = origin0, validAllowedLinkPrefixes = linkPrefixes,
                   validAllowedImagePrefixes = imagePrefixes\<rparr>)"

section \<open>Block segmentation and merging (parse-blocks.ts)\<close>

text \<open>
  A token of the external lexer, as far as \<^verbatim>\<open>extractMeta\<close> reads it: each of
  \<^verbatim>\<open>type\<close>, \<^verbatim>\<open>raw\<close> and \<^verbatim>\<open>text\<close> is present as a string, or is not.
\<close>

record Token =
  tokenType :: "jsstring option"
  tokenRaw :: "jsstring option"
  tokenText :: "jsstring option"

record TokenMeta =
  raw :: jsstring
  type :: jsstring
  orig :: Token

definition extractMeta :: "Token \<Rightarrow> TokenMeta" where
  "extractMeta token =
     \<lparr>raw = (case tokenRaw token of
               Some r \<Rightarrow> r
             | None \<Rightarrow> (case tokenText token of Some t \<Rightarrow> t | None \<Rightarrow> [])),
      type = (case tokenType token of Some t \<Rightarrow> t | None \<Rightarrow> []),
      orig = token\<rparr>"

text \<open>
  \<^verbatim>\<open>(block.match(/\$\$/g) || []).length\<close>: the matches of a global expression are
  found from left to right and do not overlap.
\<close>

fun dollarCount :: "jsstring \<Rightarrow> nat" where
  "dollarCount (a # b # cs) =
     (if a = 0x24 \<and> b = 0x24 then Suc (dollarCount cs) else dollarCount (b # cs))"
| "dollarCount [a] = 0"
| "dollarCount [] = 0"

text \<open>
  \<^verbatim>\<open>blockKatexRegex = /^(\${1,2})\n([\s\S]*?)\n\1(?:\n|$)/\<close>, without the flag
  \<^verbatim>\<open>m\<close>: \<^verbatim>\<open>^\<close> is the start and \<^verbatim>\<open>$\<close> the end of the input.
  \<open>closingHere d r\<close> is \<^verbatim>\<open>\n\1(?:\n|$)\<close> at the head of \<open>r\<close> with \<open>d\<close> the text
  of group 1; \<open>lazyBody d r\<close> lets the lazy body take any number of units first.
\<close>

definition closingHere :: "jsstring \<Rightarrow> jsstring \<Rightarrow> bool" where
  "closingHere d r \<longleftrightarrow>
     startsWith r (0x0A # d) \<and>
     (case drop (Suc (length d)) r of [] \<Rightarrow> True | c # _ \<Rightarrow> c = 0x0A)"

fun lazyBody :: "jsstring \<Rightarrow> jsstring \<Rightarrow> bool" where
  "lazyBody d [] = closingHere d []"
| "lazyBody d (c # cs) = (closingHere d (c # cs) \<or> lazyBody d cs)"

definition blockKatexWith :: "jsstring \<Rightarrow> jsstring \<Rightarrow> bool" where
  "blockKatexWith d s \<longleftrightarrow>
     startsWith s (d @ [0x0A]) \<and> lazyBody d (drop (Suc (length d)) s)"

text \<open>The greedy \<^verbatim>\<open>{1,2}\<close> tries two dollar signs first, then one.\<close>

definition blockKatexRegexTest :: "jsstring \<Rightarrow> bool" where
  "blockKatexRegexTest s \<longleftrightarrow> blockKatexWith (js ''$$'') s \<or> blockKatexWith (js ''$'') s"

text \<open>
  The body of the loop over \<^verbatim>\<open>tokensWithMeta\<close>, in three parts. Each of the two
  \<^verbatim>\<open>if\<close> blocks either ends the iteration with \<^verbatim>\<open>continue\<close> (the result is
  \<open>Some\<close> of the new \<^verbatim>\<open>mergedBlocks\<close>) or falls through (\<open>None\<close>).
  \<^verbatim>\<open>mergedBlocks.at(-1)\<close> is read only where the length is positive, and
  \<^verbatim>\<open>!previousBlock\<close> holds of the empty string.
\<close>

definition standaloneClosing :: "jsstring list \<Rightarrow> jsstring \<Rightarrow> jsstring list option" where
  "standaloneClosing mergedBlocks currentBlock =
     (if trim currentBlock = js ''$$'' \<and> mergedBlocks \<noteq> [] then
        let previousBlock = last mergedBlocks in
        if previousBlock = [] then Some mergedBlocks
        else
          let prevStartsWith = startsWith (trimStart previousBlock) (js ''$$'');
              prevDollarCount = dollarCount previousBlock
          in
            if prevStartsWith \<and> prevDollarCount mod 2 = 1 then
              let candidate = previousBlock @ currentBlock in
              if blockKatexRegexTest (trim candidate)
              then Some (butlast mergedBlocks @ [candidate])
              else None
            else None
      else None)"

definition endsWithClosing :: "jsstring list \<Rightarrow> jsstring \<Rightarrow> jsstring list option" where
  "endsWithClosing mergedBlocks currentBlock =
     (if mergedBlocks \<noteq> [] \<and> endsWith (trimEnd currentBlock) (js ''$$'') then
        let previousBlock = last mergedBlocks in
        if previousBlock = [] then Some mergedBlocks
        else
          let prevStartsWith = startsWith (trimStart previousBlock) (js ''$$'');
              prevDollarCount = dollarCount previousBlock;
              currDollarCount = dollarCount currentBlock
          in
            if prevStartsWith \<and> prevDollarCount mod 2 = 1 \<and>
               \<not> startsWith (trimStart currentBlock) (js ''$$'') \<and> currDollarCount = 1
            then
              let candidate = previousBlock @ currentBlock in
              if blockKatexRegexTest (trim candidate)
              then Some (butlast mergedBlocks @ [candidate])
              else None
            else None
      else None)"

definition mergeStep :: "jsstring list \<Rightarrow> TokenMeta \<Rightarrow> jsstring list" where
  "mergeStep mergedBlocks currentMeta =
     (let currentBlock = raw currentMeta in
      if type currentMeta = js ''blockKatex'' \<or> type currentMeta = js ''inlineKatex''
      then mergedBlocks @ [currentBlock]
      else case standaloneClosing mergedBlocks currentBlock of
        Some merged \<Rightarrow> merged
      | None \<Rightarrow>
          (case endsWithClosing mergedBlocks currentBlock of
             Some merged \<Rightarrow> merged
           | None \<Rightarrow> mergedBlocks @ [currentBlock]))"

definition mergeBlocks :: "TokenMeta list \<Rightarrow> jsstring list" where
  "mergeBlocks tokensWithMeta = foldl mergeStep [] tokensWithMeta"

text \<open>
  \<^verbatim>\<open>parseMarkdownIntoTokens\<close>. The lexer is the external Markdown library and
  \<^verbatim>\<open>parseIncompleteMarkdown\<close> is imported from another module; both are parameters.
  The token cache in front of the function only returns what an earlier call with the
  same arguments computed, and is left out.
\<close>

definition parseMarkdownIntoTokens ::
  "(jsstring \<Rightarrow> Token list) \<Rightarrow> (jsstring \<Rightarrow> jsstring) \<Rightarrow> jsstring \<Rightarrow> bool \<Rightarrow> Token list" where
  "parseMarkdownIntoTokens lexer parseIncompleteMarkdown markdown shouldParseIncompleteMarkdown =
     (let tokens = lexer markdown;
          tokensWithMeta = map extractMeta tokens;
          mergedBlocks = mergeBlocks tokensWithMeta;
          processedBlocks =
            (if shouldParseIncompleteMarkdown
             then map (\<lambda>block. if blockKatexRegexTest block then block
                              else parseIncompleteMarkdown (trim block)) mergedBlocks
             else mergedBlocks)
      in concat (map lexer processedBlocks))"

section \<open>The link rule of the repairer\<close>

text \<open>
  Modelled from the spec: the rule for unterminated links of the incomplete-construct
  repairer, whose module \<^verbatim>\<open>parse-incomplete-markdown.ts\<close> is imported by
  \<^verbatim>\<open>parse-blocks.ts\<close> and is not among the sources. The spec speaks of the rule in
  two places.
  \<^item> Component design, (e): a \<^verbatim>\<open>[text](url\<close> with no closing \<^verbatim>\<open>)\<close> "is rendered as
    a complete anchor pointing to a sentinel incomplete-link URL". The model replaces the
    unfinished destination by the sentinel and closes the link.
  \<^item> Testable properties: "repairing \<^verbatim>\<open>Text with incomplete [link\<close> yields an
    anchor-equivalent token whose href is the sentinel and whose visible text is
    \<^verbatim>\<open>link\<close>". The model completes an opener \<^verbatim>\<open>[text\<close> with no \<^verbatim>\<open>]\<close> behind it
    to a link to the sentinel. The tests of the repository assert the same outcome
    (\<^verbatim>\<open>components.svelte.test.ts\<close>, "should mark incomplete links with data attribute";
    \<^verbatim>\<open>streamdown.svelte.test.ts\<close>, "should mark incomplete links with data
    attributes").
  The first clause of (e), "a \<^verbatim>\<open>[text\<close> with no closing \<^verbatim>\<open>]\<close> is rendered as plain
  text", says the opposite of the testable property about the same input; the model
  cannot follow both and follows the property that the tests assert. The spec does not
  say what becomes of an unterminated image, so an opener behind \<^verbatim>\<open>!\<close> is left as it
  is, and so is every other text ("prefers leaving text unmodified").
\<close>

text \<open>
  Modelled from the spec: the Markdown source of a complete anchor, an inline link with
  the given text and destination.
\<close>

definition markdownLink :: "jsstring \<Rightarrow> jsstring \<Rightarrow> jsstring" where
  "markdownLink linkText url = js ''['' @ linkText @ js '']('' @ url @ js '')''"

text \<open>
  Modelled from the spec: the unterminated construct is looked for at the end of the
  text. \<open>splitLast c s\<close> is the text before the last \<open>c\<close> in \<open>s\<close> and the text
  behind it, if \<open>c\<close> occurs.
\<close>

definition splitLast :: "uchar \<Rightarrow> jsstring \<Rightarrow> (jsstring \<times> jsstring) option" where
  "splitLast c s =
     (if c \<in> set s
      then Some (rev (tl (dropWhile (\<lambda>x. x \<noteq> c) (rev s))),
                 rev (takeWhile (\<lambda>x. x \<noteq> c) (rev s)))
      else None)"

text \<open>
  Modelled from the spec: an opener \<^verbatim>\<open>[text\<close> at the end of \<open>s\<close>, with no \<^verbatim>\<open>]\<close> in
  the text and no \<^verbatim>\<open>!\<close> in front of it: the text before the opener and the text of
  the link.
\<close>

definition linkOpener :: "jsstring \<Rightarrow> (jsstring \<times> jsstring) option" where
  "linkOpener s =
     (case splitLast 0x5B s of
        None \<Rightarrow> None
      | Some (before, linkText) \<Rightarrow>
          if 0x5D \<in> set linkText then None
          else if before \<noteq> [] \<and> last before = 0x21 then None
          else Some (before, linkText))"

text \<open>
  Modelled from the spec: the rule itself. The form \<^verbatim>\<open>[text](url\<close> with no
  \<^verbatim>\<open>)\<close> behind the last \<^verbatim>\<open>(\<close> is tried first, then the opener alone.
\<close>

definition repairIncompleteLink :: "jsstring \<Rightarrow> jsstring" where
  "repairIncompleteLink text =
     (case (case splitLast 0x28 text of
              None \<Rightarrow> None
            | Some (beforeParen, url) \<Rightarrow>
                if 0x29 \<notin> set url \<and> beforeParen \<noteq> [] \<and> last beforeParen = 0x5D
                then linkOpener (butlast beforeParen)
                else None) of
        Some (before, linkText) \<Rightarrow> before @ markdownLink linkText incompleteLink
      | None \<Rightarrow>
          (case linkOpener text of
             Some (before, linkText) \<Rightarrow> before @ markdownLink linkText incompleteLink
           | None \<Rightarrow> text))"

section \<open>Vocabulary of the properties\<close>

text \<open>Equality of two strings up to the case of the ASCII letters.\<close>

definition asciiLower :: "uchar \<Rightarrow> uchar" where
  "asciiLower c = (if 0x41 \<le> c \<and> c \<le> 0x5A then c + 0x20 else c)"

definition sameIgnoringCase :: "jsstring \<Rightarrow> jsstring \<Rightarrow> bool" where
  "sameIgnoringCase a b \<longleftrightarrow> map asciiLower a = map asciiLower b"

text \<open>
  The shape of block math: an opening delimiter on a line of its own, a body, and the same
  delimiter on a line of its own, at the end of the text or followed by a line break.
\<close>

definition blockMathShape :: "jsstring \<Rightarrow> bool" where
  "blockMathShape s \<longleftrightarrow>
     (\<exists>d body rest. (d = js ''$$'' \<or> d = js ''$'') \<and> s = d @ 0x0A # body @ 0x0A # d @ rest \<and>
        (rest = [] \<or> hd rest = 0x0A))"

text \<open>
  A fact about the platform's parser: without a base, it parses \<open>input\<close> as an
  \<^verbatim>\<open>https\<close> URL with the given normalized href and origin.
\<close>

definition parsesTo :: "url_parser \<Rightarrow> string \<Rightarrow> string \<Rightarrow> string \<Rightarrow> bool" where
  "parsesTo newURL input normalized org \<longleftrightarrow>
     (\<exists>u. newURL (js input) None = Some u \<and> href u = js normalized \<and> origin u = js org \<and>
          protocol u = js ''https:'')"

text \<open>
  What the platform's parser returns on the absolute URLs of the examples (an absolute URL
  parses alike with and without a base), as a table; every other string is taken not to
  parse. It is the parser at which the statements about every parser are tried.
\<close>

definition httpsUrl :: "string \<Rightarrow> string \<Rightarrow> URL" where
  "httpsUrl host path =
     \<lparr>href = js ''https://'' @ js host @ js path, origin = js ''https://'' @ js host,
      protocol = js ''https:'', pathname = js path, search = [], hash = []\<rparr>"

definition exampleParser :: url_parser where
  "exampleParser s base =
     map_of
       [(js ''https://prefix.com/prefix/'', httpsUrl ''prefix.com'' ''/prefix/''),
        (js ''https://prefix.com/prefix/allowed.jpg'', httpsUrl ''prefix.com'' ''/prefix/allowed.jpg''),
        (js ''https://prefix.com/other/file.jpg'', httpsUrl ''prefix.com'' ''/other/file.jpg''),
        (js ''https://prefix.com/prefix/../other/file.jpg'',
           httpsUrl ''prefix.com'' ''/other/file.jpg''),
        (js ''https://example.com/'', httpsUrl ''example.com'' ''/''),
        (js ''https://example.com/../../../evil.com/malware'',
           httpsUrl ''example.com'' ''/evil.com/malware''),
        (js ''https://example.com/test'', httpsUrl ''example.com'' ''/test''),
        (js ''https://example.com/hotel:info'', httpsUrl ''example.com'' ''/hotel:info'')]
       s"

text \<open>
  What the platform's parser returns where the default origin is \<^verbatim>\<open>custom://x\<close>, a
  URL of a scheme that is not special: the absolute URL \<^verbatim>\<open>custom://x/*y\<close> parses as
  it is, the wildcard marker \<^verbatim>\<open>*\<close> does not parse without a base and resolves to
  \<^verbatim>\<open>custom://x/*\<close> against the default origin, and the origin of such a URL is opaque
  and reads \<^verbatim>\<open>null\<close>. Every other string is taken not to parse.
\<close>

definition customUrl :: "string \<Rightarrow> URL" where
  "customUrl path =
     \<lparr>href = js ''custom://x'' @ js path, origin = js ''null'', protocol = js ''custom:'',
      pathname = js path, search = [], hash = []\<rparr>"

definition customSchemeParser :: url_parser where
  "customSchemeParser s base =
     (if s = js ''custom://x/*y'' then Some (customUrl ''/*y'')
      else if s = js ''*'' \<and> base = Some (js ''custom://x'') then Some (customUrl ''/*'')
      else None)"

text \<open>The meta data of a paragraph token with the given raw text.\<close>

definition paragraphMeta :: "jsstring \<Rightarrow> TokenMeta" where
  "paragraphMeta r =
     extractMeta \<lparr>tokenType = Some (js ''paragraph''), tokenRaw = Some r, tokenText = None\<rparr>"

section \<open>Properties of the suspicious-pattern check\<close>

lemma canonicalize_asciiLower:
  "canonicalize a = canonicalize b \<longleftrightarrow> asciiLower a = asciiLower b"
  unfolding canonicalize_def asciiLower_def
  by (auto simp: word_le_nat_alt word_less_nat_alt unat_sub unat_word_ariths
      word_eq_iff_unsigned[where ?'a=nat])

lemma matchToken_sameIgnoringCase:
  "sameIgnoringCase t' t \<Longrightarrow> matchToken t (t' @ r) = Some r"
proof (induction t arbitrary: t')
  case Nil
  then show ?case by (simp add: sameIgnoringCase_def)
next
  case (Cons p ps)
  then obtain c cs where t': "t' = c # cs"
    by (cases t') (auto simp: sameIgnoringCase_def)
  with Cons.prems have "asciiLower c = asciiLower p" "sameIgnoringCase cs ps"
    by (auto simp: sameIgnoringCase_def)
  with Cons.IH t' show ?case
    by (simp add: canonicalize_asciiLower)
qed

lemma colon_not_space: "\<not> isWhiteSpace 0x3A"
  by (simp add: isWhiteSpace_def)

lemma common_white_space:
  "isWhiteSpace 0x20" "isWhiteSpace 0x09" "isWhiteSpace 0x0A" "isWhiteSpace 0x0D"
  by (simp_all add: isWhiteSpace_def)

lemma matchSpaceColon_run:
  "\<forall>w \<in> set ws. isWhiteSpace w \<Longrightarrow> matchSpaceColon (ws @ 0x3A # post)"
  by (simp add: matchSpaceColon_def dropWhile_append3 colon_not_space)

lemma protocolRegexTest_at:
  "matchProtocolHere s \<Longrightarrow> protocolRegexTest (pre @ s)"
proof (induction pre)
  case Nil
  then show ?case by (cases s) auto
next
  case (Cons a pre)
  then show ?case by simp
qed

lemma protocolRegexTest_token:
  assumes "t \<in> set dangerousTokens" and "sameIgnoringCase t' t"
    and "\<forall>w \<in> set ws. isWhiteSpace w"
  shows "protocolRegexTest (pre @ t' @ ws @ 0x3A # post)"
proof -
  have "matchToken t (t' @ ws @ 0x3A # post) = Some (ws @ 0x3A # post)"
    using assms(2) by (rule matchToken_sameIgnoringCase)
  moreover have "matchSpaceColon (ws @ 0x3A # post)"
    using assms(3) by (rule matchSpaceColon_run)
  ultimately have "matchProtocolHere (t' @ ws @ 0x3A # post)"
    using assms(1) unfolding matchProtocolHere_def list_ex_iff by force
  then show ?thesis by (rule protocolRegexTest_at)
qed

lemma hasSuspiciousPatterns_token:
  assumes "t \<in> set dangerousTokens" and "sameIgnoringCase t' t"
    and "\<forall>w \<in> set ws. isWhiteSpace w"
  shows "hasSuspiciousPatterns (pre @ t' @ ws @ 0x3A # post)"
  using protocolRegexTest_token[OF assms] by (simp add: hasSuspiciousPatterns_def)

lemmas suspicious_eval =
  hasSuspiciousPatterns_def js_def isControlChar_def isZeroWidthChar_def matchProtocolHere_def
  dangerousTokens_def canonicalize_def matchSpaceColon_def isWhiteSpace_def

lemma incompleteLink_not_suspicious: "\<not> hasSuspiciousPatterns incompleteLink"
  by (simp add: suspicious_eval incompleteLink_def)

lemma allowed_jpg_not_suspicious:
  "\<not> hasSuspiciousPatterns (js ''https://prefix.com/prefix/allowed.jpg'')"
  by (simp add: suspicious_eval)

lemma evil_malware_not_suspicious:
  "\<not> hasSuspiciousPatterns (js ''https://example.com/../../../evil.com/malware'')"
  by (simp add: suspicious_eval)

lemma https_not_dangerous: "\<not> isDangerousProtocol (js ''https:'')"
  by (simp add: isDangerousProtocol_def toLowerCase_def lowerUnit_def dangerous_def js_def)

section \<open>Properties of the transformer\<close>

lemma transformUrl_suspicious:
  "hasSuspiciousPatterns s \<Longrightarrow>
     transformUrl newURL allowedPrefixes defaultOrigin (JString s) = None"
  using incompleteLink_not_suspicious by (auto simp: transformUrl_def)

lemma transformUrl_checked:
  assumes "s \<noteq> []" "s \<noteq> incompleteLink" "\<not> hasSuspiciousPatterns s"
    and "parseUrl newURL defaultOrigin (JString s) = Some parsedUrl"
    and "\<not> isDangerousProtocol (protocol parsedUrl)"
  shows "transformUrl newURL allowedPrefixes defaultOrigin (JString s) =
     (if list_ex (prefixMatches newURL defaultOrigin parsedUrl) allowedPrefixes
      then Some (relativeOrHref (startsWith s (js ''/'')) parsedUrl)
      else if js ''*'' \<in> set allowedPrefixes \<and>
              (protocol parsedUrl = js ''https:'' \<or> protocol parsedUrl = js ''http:'')
      then Some (relativeOrHref (startsWith s (js ''/'')) parsedUrl)
      else None)"
  using assms by (simp add: transformUrl_def isPathRelativeUrl_def)

lemma transformUrl_Some_checked:
  assumes "transformUrl newURL allowedPrefixes defaultOrigin (JString s) = Some r"
    and "s \<noteq> incompleteLink"
  shows "s \<noteq> [] \<and> \<not> hasSuspiciousPatterns s \<and>
     (\<exists>parsedUrl. parseUrl newURL defaultOrigin (JString s) = Some parsedUrl \<and>
        \<not> isDangerousProtocol (protocol parsedUrl))"
  using assms by (auto simp: transformUrl_def split: if_splits option.splits)

lemma prefixMatches_iff:
  "prefixMatches newURL defaultOrigin parsedUrl p \<longleftrightarrow>
     (\<exists>parsedPrefix. parseUrl newURL defaultOrigin (JString p) = Some parsedPrefix \<and>
        origin parsedPrefix = origin parsedUrl \<and> prefix (href parsedPrefix) (href parsedUrl))"
  by (auto simp: prefixMatches_def startsWith_def split: option.splits)

lemma some_prefixMatches_iff:
  "list_ex (prefixMatches newURL defaultOrigin parsedUrl) allowedPrefixes \<longleftrightarrow>
     (\<exists>p \<in> set allowedPrefixes. \<exists>parsedPrefix.
        parseUrl newURL defaultOrigin (JString p) = Some parsedPrefix \<and>
        origin parsedPrefix = origin parsedUrl \<and> prefix (href parsedPrefix) (href parsedUrl))"
  by (simp add: list_ex_iff prefixMatches_iff)

lemma transformUrl_no_match:
  assumes "parseUrl newURL defaultOrigin (JString s) = Some parsedUrl"
    and "\<not> list_ex (prefixMatches newURL defaultOrigin parsedUrl) allowedPrefixes"
    and "js ''*'' \<notin> set allowedPrefixes" and "s \<noteq> incompleteLink"
  shows "transformUrl newURL allowedPrefixes defaultOrigin (JString s) = None"
  using assms by (simp add: transformUrl_def)

lemma transformUrl_accept_absolute:
  assumes p: "newURL p None = Some parsedPrefix" and u: "newURL s None = Some parsedUrl"
    and "origin parsedPrefix = origin parsedUrl" "prefix (href parsedPrefix) (href parsedUrl)"
    and "\<not> hasSuspiciousPatterns s" "\<not> isDangerousProtocol (protocol parsedUrl)"
    and "s \<noteq> []" "s \<noteq> incompleteLink" "\<not> prefix (js ''/'') s"
  shows "transformUrl newURL [p] defaultOrigin (JString s) = Some (href parsedUrl)"
proof -
  have pp: "parseUrl newURL defaultOrigin (JString p) = Some parsedPrefix"
    using p by (simp add: parseUrl_def)
  have pu: "parseUrl newURL defaultOrigin (JString s) = Some parsedUrl"
    using u by (simp add: parseUrl_def)
  have "prefixMatches newURL defaultOrigin parsedUrl p"
    unfolding prefixMatches_iff using pp assms(3,4) by simp
  then show ?thesis
    using assms(5-9)
    by (simp add: transformUrl_checked[OF _ _ _ pu] relativeOrHref_def startsWith_def)
qed

lemma transformUrl_reject_absolute:
  assumes p: "newURL p None = Some parsedPrefix" and u: "newURL s None = Some parsedUrl"
    and "origin parsedPrefix \<noteq> origin parsedUrl \<or>
         \<not> prefix (href parsedPrefix) (href parsedUrl)"
    and "p \<noteq> js ''*''" "s \<noteq> incompleteLink"
  shows "transformUrl newURL [p] defaultOrigin (JString s) = None"
proof -
  have pp: "parseUrl newURL defaultOrigin (JString p) = Some parsedPrefix"
    using p by (simp add: parseUrl_def)
  have pu: "parseUrl newURL defaultOrigin (JString s) = Some parsedUrl"
    using u by (simp add: parseUrl_def)
  have "\<not> prefixMatches newURL defaultOrigin parsedUrl p"
    unfolding prefixMatches_iff using pp assms(3) by auto
  then show ?thesis
    using assms(4,5) by (intro transformUrl_no_match[OF pu]) auto
qed

text \<open>
  Claim C3. The transformer rejects a string that holds (a) a control character in
  \<^verbatim>\<open>0x00-0x08\<close>, \<^verbatim>\<open>0x0B\<close>, \<^verbatim>\<open>0x0C\<close>, \<^verbatim>\<open>0x0E-0x1F\<close> or \<^verbatim>\<open>0x7F\<close>, (b) one of
  the zero-width characters \<^verbatim>\<open>U+200B\<close>, \<^verbatim>\<open>U+200C\<close>, \<^verbatim>\<open>U+200D\<close>, \<^verbatim>\<open>U+FEFF\<close>, or
  (c) a dangerous-protocol token in any case, followed by any amount of white space (the
  class \<^verbatim>\<open>\s\<close>, which holds the space, the tab, the line feed and the carriage return)
  and then a colon. The check reads the raw string and comes before the parse: the result
  is \<open>None\<close> whatever the parser \<open>newURL\<close>, the allowed prefixes and the default origin
  are.
\<close>

theorem suspicious_patterns_rejected:
  "((\<exists>c \<in> set s. c \<le> 0x08 \<or> c = 0x0B \<or> c = 0x0C \<or> (0x0E \<le> c \<and> c \<le> 0x1F) \<or> c = 0x7F) \<longrightarrow>
      transformUrl newURL allowedPrefixes defaultOrigin (JString s) = None) \<and>
   ((\<exists>c \<in> set s. c = 0x200B \<or> c = 0x200C \<or> c = 0x200D \<or> c = 0xFEFF) \<longrightarrow>
      transformUrl newURL allowedPrefixes defaultOrigin (JString s) = None) \<and>
   ((\<exists>pre t' t ws post. s = pre @ t' @ ws @ 0x3A # post \<and> t \<in> set dangerousTokens \<and>
        sameIgnoringCase t' t \<and> (\<forall>w \<in> set ws. isWhiteSpace w)) \<longrightarrow>
      transformUrl newURL allowedPrefixes defaultOrigin (JString s) = None)"
proof (intro conjI impI)
  assume "\<exists>c \<in> set s. c \<le> 0x08 \<or> c = 0x0B \<or> c = 0x0C \<or> (0x0E \<le> c \<and> c \<le> 0x1F) \<or> c = 0x7F"
  then have "list_ex isControlChar s"
    unfolding list_ex_iff isControlChar_def by blast
  then have "hasSuspiciousPatterns s" by (simp add: hasSuspiciousPatterns_def)
  then show "transformUrl newURL allowedPrefixes defaultOrigin (JString s) = None"
    by (rule transformUrl_suspicious)
next
  assume "\<exists>c \<in> set s. c = 0x200B \<or> c = 0x200C \<or> c = 0x200D \<or> c = 0xFEFF"
  then obtain c where "c \<in> set s" "c = 0x200B \<or> c = 0x200C \<or> c = 0x200D \<or> c = 0xFEFF"
    by blast
  then have "c \<in> set s" "isZeroWidthChar c"
    by (auto simp: isZeroWidthChar_def)
  then have "list_ex isZeroWidthChar s"
    unfolding list_ex_iff by blast
  then have "hasSuspiciousPatterns s" by (simp add: hasSuspiciousPatterns_def)
  then show "transformUrl newURL allowedPrefixes defaultOrigin (JString s) = None"
    by (rule transformUrl_suspicious)
next
  assume "\<exists>pre t' t ws post. s = pre @ t' @ ws @ 0x3A # post \<and> t \<in> set dangerousTokens \<and>
        sameIgnoringCase t' t \<and> (\<forall>w \<in> set ws. isWhiteSpace w)"
  then obtain pre t' t ws post where s: "s = pre @ t' @ ws @ 0x3A # post"
    and t: "t \<in> set dangerousTokens" "sameIgnoringCase t' t"
    and ws: "\<forall>w \<in> set ws. isWhiteSpace w"
    by blast
  from t ws have "hasSuspiciousPatterns s"
    unfolding s by (rule hasSuspiciousPatterns_token)
  then show "transformUrl newURL allowedPrefixes defaultOrigin (JString s) = None"
    by (rule transformUrl_suspicious)
qed

lemma javascript_token: "js ''javascript'' \<in> set dangerousTokens"
  by (simp add: dangerousTokens_def)

lemma JavaScript_same_as_javascript: "sameIgnoringCase (js ''JavaScript'') (js ''javascript'')"
  by (simp add: sameIgnoringCase_def asciiLower_def js_def)

text \<open>
  Claim C3 at three inputs, under the wildcard and with a default origin:
  \<^verbatim>\<open>javascript\x00:alert(1)\<close>, a URL with \<^verbatim>\<open>U+200B\<close> in its path, and
  \<^verbatim>\<open>JavaScript\t:alert(1)\<close>.
\<close>

theorem suspicious_patterns_rejected_witness:
  "transformUrl exampleParser [js ''*''] (Some (js ''https://example.com''))
      (JString (js ''javascript'' @ 0x00 # js '':alert(1)'')) = None \<and>
   transformUrl exampleParser [js ''*''] (Some (js ''https://example.com''))
      (JString (js ''https://example.com/'' @ [0x200B] @ js ''test'')) = None \<and>
   transformUrl exampleParser [js ''*''] (Some (js ''https://example.com''))
      (JString ([] @ js ''JavaScript'' @ [0x09] @ 0x3A # js ''alert(1)'')) = None"
proof -
  let ?T = "transformUrl exampleParser [js ''*''] (Some (js ''https://example.com''))"
  have a: "\<exists>c \<in> set (js ''javascript'' @ 0x00 # js '':alert(1)'').
         c \<le> 0x08 \<or> c = 0x0B \<or> c = 0x0C \<or> (0x0E \<le> c \<and> c \<le> 0x1F) \<or> c = 0x7F"
    by simp
  have b: "\<exists>c \<in> set (js ''https://example.com/'' @ [0x200B] @ js ''test'').
         c = 0x200B \<or> c = 0x200C \<or> c = 0x200D \<or> c = 0xFEFF"
    by simp
  have c: "\<exists>pre t' t ws post.
         [] @ js ''JavaScript'' @ [0x09] @ 0x3A # js ''alert(1)'' = pre @ t' @ ws @ 0x3A # post \<and>
         t \<in> set dangerousTokens \<and> sameIgnoringCase t' t \<and>
         (\<forall>w \<in> set ws. isWhiteSpace w)"
    using javascript_token JavaScript_same_as_javascript common_white_space(2)
    by (intro exI[of _ "[]"] exI[of _ "js ''JavaScript''"] exI[of _ "js ''javascript''"]
        exI[of _ "[0x09]"] exI[of _ "js ''alert(1)''"]) simp
  show ?thesis
    using suspicious_patterns_rejected[of "js ''javascript'' @ 0x00 # js '':alert(1)''" exampleParser
        "[js ''*'']" "Some (js ''https://example.com'')"]
      suspicious_patterns_rejected[of "js ''https://example.com/'' @ [0x200B] @ js ''test''"
        exampleParser "[js ''*'']" "Some (js ''https://example.com'')"]
      suspicious_patterns_rejected[of "[] @ js ''JavaScript'' @ [0x09] @ 0x3A # js ''alert(1)''"
        exampleParser "[js ''*'']" "Some (js ''https://example.com'')"]
      a b c
    by blast
qed


lemma tel_token: "js ''tel'' \<in> set dangerousTokens"
  by (simp add: dangerousTokens_def)

lemma data_token: "js ''data'' \<in> set dangerousTokens"
  by (simp add: dangerousTokens_def)

lemma file_token: "js ''file'' \<in> set dangerousTokens"
  by (simp add: dangerousTokens_def)

lemma sameIgnoringCase_refl: "sameIgnoringCase t t"
  by (simp add: sameIgnoringCase_def)

lemma hasSuspiciousPatterns_plain:
  assumes "t \<in> set dangerousTokens"
  shows "hasSuspiciousPatterns (pre @ t @ 0x3A # post)"
  using hasSuspiciousPatterns_token[OF assms sameIgnoringCase_refl, of "[]" pre post] by simp

lemma hotel_info_suspicious: "hasSuspiciousPatterns (js ''https://example.com/hotel:info'')"
proof -
  have "js ''https://example.com/hotel:info'' =
        js ''https://example.com/ho'' @ js ''tel'' @ 0x3A # js ''info''"
    by (simp add: js_def)
  then show ?thesis using hasSuspiciousPatterns_plain[OF tel_token] by simp
qed

lemma javascript_alert_suspicious: "hasSuspiciousPatterns (js ''javascript:alert(1)'')"
proof -
  have "js ''javascript:alert(1)'' = [] @ js ''javascript'' @ 0x3A # js ''alert(1)''"
    by (simp add: js_def)
  then show ?thesis using hasSuspiciousPatterns_plain[OF javascript_token, of "[]"] by simp
qed

lemma data_html_suspicious: "hasSuspiciousPatterns (js ''data:text/html,'' @ rest)"
proof -
  have "js ''data:text/html,'' @ rest = [] @ js ''data'' @ 0x3A # (js ''text/html,'' @ rest)"
    by (simp add: js_def)
  then show ?thesis using hasSuspiciousPatterns_plain[OF data_token, of "[]"] by simp
qed

lemma file_passwd_suspicious: "hasSuspiciousPatterns (js ''file:///etc/passwd'')"
proof -
  have "js ''file:///etc/passwd'' = [] @ js ''file'' @ 0x3A # js ''///etc/passwd''"
    by (simp add: js_def)
  then show ?thesis using hasSuspiciousPatterns_plain[OF file_token, of "[]"] by simp
qed

text \<open>
  Claim C10. Whatever the configuration, a string in which a dangerous-protocol token (in
  any case), white space or none, and a colon follow one another at any place is rejected,
  also where that place is the path of a URL whose origin and prefix are allowed:
  \<^verbatim>\<open>https://example.com/hotel:info\<close> is rejected under the allowed prefix
  \<^verbatim>\<open>https://example.com/\<close>, for the \<^verbatim>\<open>tel:\<close> in its path.
\<close>

theorem dangerous_token_anywhere_rejected:
  "(t \<in> set dangerousTokens \<and> sameIgnoringCase t' t \<and> (\<forall>w \<in> set ws. isWhiteSpace w) \<longrightarrow>
      transformUrl newURL allowedPrefixes defaultOrigin (JString (pre @ t' @ ws @ 0x3A # post)) = None) \<and>
   transformUrl newURL [js ''https://example.com/''] defaultOrigin
      (JString (js ''https://example.com/hotel:info'')) = None"
  using hasSuspiciousPatterns_token[of t t' ws pre post] hotel_info_suspicious
  by (auto intro: transformUrl_suspicious)

lemma exampleParser_hotel:
  "exampleParser (js ''https://example.com/hotel:info'') None = Some (httpsUrl ''example.com'' ''/hotel:info'')"
  by (simp add: exampleParser_def js_def)

lemma exampleParser_example_com:
  "exampleParser (js ''https://example.com/'') None = Some (httpsUrl ''example.com'' ''/'')"
  by (simp add: exampleParser_def js_def)

text \<open>
  Claim C10 at \<^verbatim>\<open>https://example.com/hotel:info\<close>, with a parser that gives the URL the
  protocol \<^verbatim>\<open>https:\<close> and under which the allowed prefix matches it.
\<close>

theorem dangerous_token_anywhere_rejected_witness:
  "js ''tel'' \<in> set dangerousTokens \<and> sameIgnoringCase (js ''tel'') (js ''tel'') \<and>
   parseUrl exampleParser None (JString (js ''https://example.com/hotel:info'')) =
     Some (httpsUrl ''example.com'' ''/hotel:info'') \<and>
   protocol (httpsUrl ''example.com'' ''/hotel:info'') = js ''https:'' \<and>
   prefixMatches exampleParser None (httpsUrl ''example.com'' ''/hotel:info'') (js ''https://example.com/'') \<and>
   transformUrl exampleParser [js ''https://example.com/''] None
     (JString (js ''https://example.com/ho'' @ js ''tel'' @ [] @ 0x3A # js ''info'')) = None"
proof -
  have "parseUrl exampleParser None (JString (js ''https://example.com/hotel:info'')) =
     Some (httpsUrl ''example.com'' ''/hotel:info'')"
    using exampleParser_hotel by (simp add: parseUrl_def)
  moreover have "prefixMatches exampleParser None (httpsUrl ''example.com'' ''/hotel:info'')
     (js ''https://example.com/'')"
    using exampleParser_example_com
    by (simp add: prefixMatches_def parseUrl_def httpsUrl_def startsWith_def js_def)
  ultimately show ?thesis
    using dangerous_token_anywhere_rejected[of "js ''tel''" "js ''tel''" "[]" exampleParser
        "[js ''https://example.com/'']" None "js ''https://example.com/ho''" "js ''info''"]
      tel_token sameIgnoringCase_refl
    by (simp add: httpsUrl_def)
qed


text \<open>
  The fallback branch by itself: where the list holds the wildcard marker and no entry of
  the list passes the test of origin and href, which the code runs on every entry, the
  marker included, a parsed candidate other than the sentinel is accepted only with the
  protocol \<^verbatim>\<open>https:\<close> or \<^verbatim>\<open>http:\<close>. The transformer made from the wildcard alone
  rejects \<^verbatim>\<open>javascript:alert(1)\<close>, every string that starts with
  \<^verbatim>\<open>data:text/html,\<close>, and \<^verbatim>\<open>file:///etc/passwd\<close>, whatever the parser and the
  default origin.
\<close>

lemma wildcard_fallback_only_http:
  "(js ''*'' \<in> set allowedPrefixes \<and> s \<noteq> incompleteLink \<and>
    parseUrl newURL defaultOrigin (JString s) = Some parsedUrl \<and>
    \<not> (\<exists>p \<in> set allowedPrefixes. \<exists>parsedPrefix.
          parseUrl newURL defaultOrigin (JString p) = Some parsedPrefix \<and>
          origin parsedPrefix = origin parsedUrl \<and>
          prefix (href parsedPrefix) (href parsedUrl)) \<and>
    transformUrl newURL allowedPrefixes defaultOrigin (JString s) \<noteq> None \<longrightarrow>
      protocol parsedUrl = js ''https:'' \<or> protocol parsedUrl = js ''http:'') \<and>
   transformUrl newURL [js ''*''] defaultOrigin (JString (js ''javascript:alert(1)'')) = None \<and>
   transformUrl newURL [js ''*''] defaultOrigin (JString (js ''data:text/html,'' @ rest)) = None \<and>
   transformUrl newURL [js ''*''] defaultOrigin (JString (js ''file:///etc/passwd'')) = None"
proof (intro conjI impI)
  assume a: "js ''*'' \<in> set allowedPrefixes \<and> s \<noteq> incompleteLink \<and>
    parseUrl newURL defaultOrigin (JString s) = Some parsedUrl \<and>
    \<not> (\<exists>p \<in> set allowedPrefixes. \<exists>parsedPrefix.
          parseUrl newURL defaultOrigin (JString p) = Some parsedPrefix \<and>
          origin parsedPrefix = origin parsedUrl \<and>
          prefix (href parsedPrefix) (href parsedUrl)) \<and>
    transformUrl newURL allowedPrefixes defaultOrigin (JString s) \<noteq> None"
  then have n: "\<not> list_ex (prefixMatches newURL defaultOrigin parsedUrl) allowedPrefixes"
    unfolding some_prefixMatches_iff by blast
  from a obtain r where r: "transformUrl newURL allowedPrefixes defaultOrigin (JString s) = Some r"
    by auto
  from a have p: "parseUrl newURL defaultOrigin (JString s) = Some parsedUrl" by blast
  from transformUrl_Some_checked[OF r] a p
  have c: "s \<noteq> []" "s \<noteq> incompleteLink" "\<not> hasSuspiciousPatterns s"
    "\<not> isDangerousProtocol (protocol parsedUrl)"
    by auto
  show "protocol parsedUrl = js ''https:'' \<or> protocol parsedUrl = js ''http:''"
    using r n unfolding transformUrl_checked[OF c(1-3) p c(4)]
    by (simp split: if_splits)
qed (simp_all add: transformUrl_suspicious javascript_alert_suspicious data_html_suspicious
    file_passwd_suspicious)

lemma custom_not_suspicious: "\<not> hasSuspiciousPatterns (js ''custom://x/*y'')"
  by (simp add: suspicious_eval)

lemma custom_not_dangerous: "\<not> isDangerousProtocol (js ''custom:'')"
  by (simp add: isDangerousProtocol_def toLowerCase_def lowerUnit_def dangerous_def js_def)

lemma custom_candidate_parsed:
  "parseUrl customSchemeParser (Some (js ''custom://x'')) (JString (js ''custom://x/*y'')) =
     Some (customUrl ''/*y'')"
  by (simp add: parseUrl_def customSchemeParser_def)

lemma custom_wildcard_parsed:
  "parseUrl customSchemeParser (Some (js ''custom://x'')) (JString (js ''*'')) =
     Some (customUrl ''/*'')"
  by (simp add: parseUrl_def customSchemeParser_def js_def)

lemma custom_wildcard_matches:
  "prefixMatches customSchemeParser (Some (js ''custom://x'')) (customUrl ''/*y'') (js ''*'')"
  unfolding prefixMatches_iff custom_wildcard_parsed
  by (simp add: customUrl_def js_def)

text \<open>
  Claim C2, where the code departs from it. The claim: with the wildcard marker in the
  list and no specific prefix matched, a candidate is accepted only if its parsed protocol
  is \<^verbatim>\<open>https:\<close> or \<^verbatim>\<open>http:\<close>. The code puts every entry of the list through the
  prefix test, the marker included. With the wildcard as the only entry and the default
  origin \<^verbatim>\<open>custom://x\<close>, a configuration that \<^verbatim>\<open>validateMarkdownOptions\<close> accepts and
  that holds no specific prefix, the marker resolves to \<^verbatim>\<open>custom://x/*\<close>, and the
  candidate \<^verbatim>\<open>custom://x/*y\<close> is accepted although its parsed protocol is
  \<^verbatim>\<open>custom:\<close>.
\<close>

theorem wildcard_marker_tested_as_prefix:
  "validateMarkdownOptions
     \<lparr>defaultOriginOption = Some (js ''custom://x''), allowedLinkPrefixesOption = Some [js ''*''],
      allowedImagePrefixesOption = None\<rparr> =
     Inr \<lparr>validDefaultOrigin = js ''custom://x'', validAllowedLinkPrefixes = [js ''*''],
          validAllowedImagePrefixes = []\<rparr> \<and>
   \<not> hasSpecificPrefixes [js ''*''] \<and>
   parseUrl customSchemeParser (Some (js ''custom://x'')) (JString (js ''custom://x/*y'')) =
     Some (customUrl ''/*y'') \<and>
   protocol (customUrl ''/*y'') = js ''custom:'' \<and>
   js ''custom:'' \<noteq> js ''https:'' \<and> js ''custom:'' \<noteq> js ''http:'' \<and>
   transformUrl customSchemeParser [js ''*''] (Some (js ''custom://x''))
     (JString (js ''custom://x/*y'')) = Some (js ''custom://x/*y'')"
proof -
  have v: "validateMarkdownOptions
     \<lparr>defaultOriginOption = Some (js ''custom://x''), allowedLinkPrefixesOption = Some [js ''*''],
      allowedImagePrefixesOption = None\<rparr> =
     Inr \<lparr>validDefaultOrigin = js ''custom://x'', validAllowedLinkPrefixes = [js ''*''],
          validAllowedImagePrefixes = []\<rparr>"
    by (simp add: validateMarkdownOptions_def hasSpecificPrefixes_def js_def)
  have h: "\<not> hasSpecificPrefixes [js ''*'']"
    by (simp add: hasSpecificPrefixes_def)
  have d: "\<not> isDangerousProtocol (protocol (customUrl ''/*y''))"
    using custom_not_dangerous by (simp add: customUrl_def)
  have "transformUrl customSchemeParser [js ''*''] (Some (js ''custom://x''))
     (JString (js ''custom://x/*y'')) =
     Some (relativeOrHref (startsWith (js ''custom://x/*y'') (js ''/'')) (customUrl ''/*y''))"
    apply (subst transformUrl_checked[OF _ _ custom_not_suspicious custom_candidate_parsed d])
    using custom_wildcard_matches by (simp_all add: js_def incompleteLink_def)
  then have t: "transformUrl customSchemeParser [js ''*''] (Some (js ''custom://x''))
     (JString (js ''custom://x/*y'')) = Some (js ''custom://x/*y'')"
    by (simp add: relativeOrHref_def startsWith_def customUrl_def js_def)
  have n: "js ''custom:'' \<noteq> js ''https:''" "js ''custom:'' \<noteq> js ''http:''"
    by (simp_all add: js_def)
  show ?thesis
    using v h custom_candidate_parsed t n by (simp add: customUrl_def)
qed

lemma prefix_examples:
  assumes "parsesTo newURL ''https://prefix.com/prefix/'' ''https://prefix.com/prefix/''
             ''https://prefix.com''"
    and "parsesTo newURL ''https://prefix.com/prefix/allowed.jpg''
           ''https://prefix.com/prefix/allowed.jpg'' ''https://prefix.com''"
    and "parsesTo newURL ''https://prefix.com/other/file.jpg''
           ''https://prefix.com/other/file.jpg'' ''https://prefix.com''"
    and "parsesTo newURL ''https://prefix.com/prefix/../other/file.jpg''
           ''https://prefix.com/other/file.jpg'' ''https://prefix.com''"
  shows "transformUrl newURL [js ''https://prefix.com/prefix/''] defaultOrigin
           (JString (js ''https://prefix.com/prefix/allowed.jpg'')) =
           Some (js ''https://prefix.com/prefix/allowed.jpg'')"
    and "transformUrl newURL [js ''https://prefix.com/prefix/''] defaultOrigin
           (JString (js ''https://prefix.com/other/file.jpg'')) = None"
    and "transformUrl newURL [js ''https://prefix.com/prefix/''] defaultOrigin
           (JString (js ''https://prefix.com/prefix/../other/file.jpg'')) = None"
proof -
  from assms(1) obtain pp where pp: "newURL (js ''https://prefix.com/prefix/'') None = Some pp"
    "href pp = js ''https://prefix.com/prefix/''" "origin pp = js ''https://prefix.com''"
    unfolding parsesTo_def by blast
  from assms(2) obtain u1 where
    u1: "newURL (js ''https://prefix.com/prefix/allowed.jpg'') None = Some u1"
    "href u1 = js ''https://prefix.com/prefix/allowed.jpg''" "origin u1 = js ''https://prefix.com''"
    "protocol u1 = js ''https:''"
    unfolding parsesTo_def by blast
  from assms(3) obtain u2 where
    u2: "newURL (js ''https://prefix.com/other/file.jpg'') None = Some u2"
    "href u2 = js ''https://prefix.com/other/file.jpg''"
    unfolding parsesTo_def by blast
  from assms(4) obtain u3 where
    u3: "newURL (js ''https://prefix.com/prefix/../other/file.jpg'') None = Some u3"
    "href u3 = js ''https://prefix.com/other/file.jpg''"
    unfolding parsesTo_def by blast
  have "transformUrl newURL [js ''https://prefix.com/prefix/''] defaultOrigin
           (JString (js ''https://prefix.com/prefix/allowed.jpg'')) = Some (href u1)"
    using pp(2,3) u1(2-4) https_not_dangerous allowed_jpg_not_suspicious
    by (intro transformUrl_accept_absolute[of newURL, OF pp(1) u1(1)])
      (simp_all add: js_def incompleteLink_def)
  then show "transformUrl newURL [js ''https://prefix.com/prefix/''] defaultOrigin
           (JString (js ''https://prefix.com/prefix/allowed.jpg'')) =
           Some (js ''https://prefix.com/prefix/allowed.jpg'')"
    using u1(2) by simp
  show "transformUrl newURL [js ''https://prefix.com/prefix/''] defaultOrigin
           (JString (js ''https://prefix.com/other/file.jpg'')) = None"
    using pp(2) u2(2)
    by (intro transformUrl_reject_absolute[of newURL, OF pp(1) u2(1)])
      (simp_all add: js_def incompleteLink_def)
  show "transformUrl newURL [js ''https://prefix.com/prefix/''] defaultOrigin
           (JString (js ''https://prefix.com/prefix/../other/file.jpg'')) = None"
    using pp(2) u3(2)
    by (intro transformUrl_reject_absolute[of newURL, OF pp(1) u3(1)])
      (simp_all add: js_def incompleteLink_def)
qed

lemma traversal_example:
  assumes "parsesTo newURL ''https://example.com/'' ''https://example.com/'' ''https://example.com''"
    and "parsesTo newURL ''https://example.com/../../../evil.com/malware''
           ''https://example.com/evil.com/malware'' ''https://example.com''"
  shows "transformUrl newURL [js ''https://example.com/''] defaultOrigin
           (JString (js ''https://example.com/../../../evil.com/malware'')) =
           Some (js ''https://example.com/evil.com/malware'')"
proof -
  from assms(1) obtain pp where pp: "newURL (js ''https://example.com/'') None = Some pp"
    "href pp = js ''https://example.com/''" "origin pp = js ''https://example.com''"
    unfolding parsesTo_def by blast
  from assms(2) obtain u where
    u: "newURL (js ''https://example.com/../../../evil.com/malware'') None = Some u"
    "href u = js ''https://example.com/evil.com/malware''" "origin u = js ''https://example.com''"
    "protocol u = js ''https:''"
    unfolding parsesTo_def by blast
  have "transformUrl newURL [js ''https://example.com/''] defaultOrigin
           (JString (js ''https://example.com/../../../evil.com/malware'')) = Some (href u)"
    using pp(2,3) u(2-4) https_not_dangerous evil_malware_not_suspicious
    by (intro transformUrl_accept_absolute[of newURL, OF pp(1) u(1)])
      (simp_all add: js_def incompleteLink_def)
  then show ?thesis using u(2) by simp
qed

lemma accepted_iff_prefix:
  assumes "s \<noteq> []" "s \<noteq> incompleteLink" "\<not> hasSuspiciousPatterns s"
    and "parseUrl newURL defaultOrigin (JString s) = Some parsedUrl"
    and "\<not> isDangerousProtocol (protocol parsedUrl)"
    and "js ''*'' \<notin> set allowedPrefixes"
  shows "transformUrl newURL allowedPrefixes defaultOrigin (JString s) \<noteq> None \<longleftrightarrow>
     (\<exists>p \<in> set allowedPrefixes. \<exists>parsedPrefix.
        parseUrl newURL defaultOrigin (JString p) = Some parsedPrefix \<and>
        origin parsedPrefix = origin parsedUrl \<and> prefix (href parsedPrefix) (href parsedUrl))"
  unfolding transformUrl_checked[OF assms(1-5)] some_prefixMatches_iff[symmetric]
  using assms(6) by simp

text \<open>
  Claim C1. For a transformer whose allowed prefixes are all other than the wildcard, a
  candidate that came through the earlier steps (a non-empty string other than the
  sentinel, without suspicious pattern, parsed, of a protocol that is not dangerous) is
  accepted if and only if some allowed prefix parses to a URL whose origin equals the
  candidate's origin and whose href is a prefix of the candidate's href, both as the
  parser normalized them. The examples follow for every parser that normalizes the six
  URLs in them as the URL standard says (dot segments resolved): under the prefix
  \<^verbatim>\<open>https://prefix.com/prefix/\<close>, \<^verbatim>\<open>https://prefix.com/prefix/allowed.jpg\<close> is
  returned unchanged, \<^verbatim>\<open>https://prefix.com/other/file.jpg\<close> and
  \<^verbatim>\<open>https://prefix.com/prefix/../other/file.jpg\<close> are rejected; under the prefix
  \<^verbatim>\<open>https://example.com/\<close>, \<^verbatim>\<open>https://example.com/../../../evil.com/malware\<close> is
  accepted as \<^verbatim>\<open>https://example.com/evil.com/malware\<close>.
\<close>

theorem accepted_under_prefix:
  "(s \<noteq> [] \<and> s \<noteq> incompleteLink \<and> \<not> hasSuspiciousPatterns s \<and>
    parseUrl newURL defaultOrigin (JString s) = Some parsedUrl \<and>
    \<not> isDangerousProtocol (protocol parsedUrl) \<and> js ''*'' \<notin> set allowedPrefixes \<longrightarrow>
      (transformUrl newURL allowedPrefixes defaultOrigin (JString s) \<noteq> None \<longleftrightarrow>
         (\<exists>p \<in> set allowedPrefixes. \<exists>parsedPrefix.
            parseUrl newURL defaultOrigin (JString p) = Some parsedPrefix \<and>
            origin parsedPrefix = origin parsedUrl \<and>
            prefix (href parsedPrefix) (href parsedUrl)))) \<and>
   (parsesTo newURL ''https://prefix.com/prefix/'' ''https://prefix.com/prefix/''
      ''https://prefix.com'' \<and>
    parsesTo newURL ''https://prefix.com/prefix/allowed.jpg''
      ''https://prefix.com/prefix/allowed.jpg'' ''https://prefix.com'' \<and>
    parsesTo newURL ''https://prefix.com/other/file.jpg''
      ''https://prefix.com/other/file.jpg'' ''https://prefix.com'' \<and>
    parsesTo newURL ''https://prefix.com/prefix/../other/file.jpg''
      ''https://prefix.com/other/file.jpg'' ''https://prefix.com'' \<and>
    parsesTo newURL ''https://example.com/'' ''https://example.com/'' ''https://example.com'' \<and>
    parsesTo newURL ''https://example.com/../../../evil.com/malware''
      ''https://example.com/evil.com/malware'' ''https://example.com'' \<longrightarrow>
      transformUrl newURL [js ''https://prefix.com/prefix/''] defaultOrigin
        (JString (js ''https://prefix.com/prefix/allowed.jpg'')) =
        Some (js ''https://prefix.com/prefix/allowed.jpg'') \<and>
      transformUrl newURL [js ''https://prefix.com/prefix/''] defaultOrigin
        (JString (js ''https://prefix.com/other/file.jpg'')) = None \<and>
      transformUrl newURL [js ''https://prefix.com/prefix/''] defaultOrigin
        (JString (js ''https://prefix.com/prefix/../other/file.jpg'')) = None \<and>
      transformUrl newURL [js ''https://example.com/''] defaultOrigin
        (JString (js ''https://example.com/../../../evil.com/malware'')) =
        Some (js ''https://example.com/evil.com/malware''))"
  using accepted_iff_prefix[of s newURL defaultOrigin parsedUrl allowedPrefixes]
    prefix_examples[of newURL defaultOrigin] traversal_example[of newURL defaultOrigin]
  by blast

lemma exampleParser_parsesTo:
  "parsesTo exampleParser ''https://prefix.com/prefix/'' ''https://prefix.com/prefix/''
      ''https://prefix.com''"
  "parsesTo exampleParser ''https://prefix.com/prefix/allowed.jpg''
      ''https://prefix.com/prefix/allowed.jpg'' ''https://prefix.com''"
  "parsesTo exampleParser ''https://prefix.com/other/file.jpg''
      ''https://prefix.com/other/file.jpg'' ''https://prefix.com''"
  "parsesTo exampleParser ''https://prefix.com/prefix/../other/file.jpg''
      ''https://prefix.com/other/file.jpg'' ''https://prefix.com''"
  "parsesTo exampleParser ''https://example.com/'' ''https://example.com/'' ''https://example.com''"
  "parsesTo exampleParser ''https://example.com/../../../evil.com/malware''
      ''https://example.com/evil.com/malware'' ''https://example.com''"
  by (simp_all add: parsesTo_def exampleParser_def httpsUrl_def js_def)

text \<open>
  Claim C1 at the parser \<open>exampleParser\<close>, with
  \<^verbatim>\<open>https://prefix.com/prefix/allowed.jpg\<close> as the candidate of the first part.
\<close>

theorem accepted_under_prefix_witness:
  "js ''https://prefix.com/prefix/allowed.jpg'' \<noteq> [] \<and>
   js ''https://prefix.com/prefix/allowed.jpg'' \<noteq> incompleteLink \<and>
   \<not> hasSuspiciousPatterns (js ''https://prefix.com/prefix/allowed.jpg'') \<and>
   parseUrl exampleParser None (JString (js ''https://prefix.com/prefix/allowed.jpg'')) =
     Some (httpsUrl ''prefix.com'' ''/prefix/allowed.jpg'') \<and>
   \<not> isDangerousProtocol (protocol (httpsUrl ''prefix.com'' ''/prefix/allowed.jpg'')) \<and>
   js ''*'' \<notin> set [js ''https://prefix.com/prefix/''] \<and>
   (transformUrl exampleParser [js ''https://prefix.com/prefix/''] None
      (JString (js ''https://prefix.com/prefix/allowed.jpg'')) \<noteq> None \<longleftrightarrow>
      (\<exists>p \<in> set [js ''https://prefix.com/prefix/'']. \<exists>parsedPrefix.
         parseUrl exampleParser None (JString p) = Some parsedPrefix \<and>
         origin parsedPrefix = origin (httpsUrl ''prefix.com'' ''/prefix/allowed.jpg'') \<and>
         prefix (href parsedPrefix) (href (httpsUrl ''prefix.com'' ''/prefix/allowed.jpg'')))) \<and>
   transformUrl exampleParser [js ''https://prefix.com/prefix/''] None
     (JString (js ''https://prefix.com/prefix/allowed.jpg'')) =
     Some (js ''https://prefix.com/prefix/allowed.jpg'') \<and>
   transformUrl exampleParser [js ''https://prefix.com/prefix/''] None
     (JString (js ''https://prefix.com/other/file.jpg'')) = None \<and>
   transformUrl exampleParser [js ''https://prefix.com/prefix/''] None
     (JString (js ''https://prefix.com/prefix/../other/file.jpg'')) = None \<and>
   transformUrl exampleParser [js ''https://example.com/''] None
     (JString (js ''https://example.com/../../../evil.com/malware'')) =
     Some (js ''https://example.com/evil.com/malware'')"
proof -
  have h1: "js ''https://prefix.com/prefix/allowed.jpg'' \<noteq> []"
    "js ''https://prefix.com/prefix/allowed.jpg'' \<noteq> incompleteLink"
    "js ''*'' \<notin> set [js ''https://prefix.com/prefix/'']"
    by (simp_all add: js_def incompleteLink_def)
  have h2: "parseUrl exampleParser None (JString (js ''https://prefix.com/prefix/allowed.jpg'')) =
     Some (httpsUrl ''prefix.com'' ''/prefix/allowed.jpg'')"
    by (simp add: parseUrl_def exampleParser_def js_def)
  have h3: "\<not> isDangerousProtocol (protocol (httpsUrl ''prefix.com'' ''/prefix/allowed.jpg''))"
    using https_not_dangerous by (simp add: httpsUrl_def)
  show ?thesis
    using accepted_under_prefix[of "js ''https://prefix.com/prefix/allowed.jpg''" exampleParser
        None "httpsUrl ''prefix.com'' ''/prefix/allowed.jpg''" "[js ''https://prefix.com/prefix/'']"]
      h1 h2 h3 allowed_jpg_not_suspicious exampleParser_parsesTo
    by blast
qed

section \<open>Properties of the block merge\<close>

lemma closingHere_iff:
  "closingHere d r \<longleftrightarrow> (\<exists>rest. r = 0x0A # d @ rest \<and> (rest = [] \<or> hd rest = 0x0A))"
proof
  assume "closingHere d r"
  then obtain rest where r: "r = (0x0A # d) @ rest"
    unfolding closingHere_def startsWith_def prefix_def by blast
  with \<open>closingHere d r\<close> have "rest = [] \<or> hd rest = 0x0A"
    by (auto simp: closingHere_def split: list.splits)
  with r show "\<exists>rest. r = 0x0A # d @ rest \<and> (rest = [] \<or> hd rest = 0x0A)" by auto
next
  assume "\<exists>rest. r = 0x0A # d @ rest \<and> (rest = [] \<or> hd rest = 0x0A)"
  then show "closingHere d r"
    by (auto simp: closingHere_def startsWith_def split: list.splits)
qed

lemma lazyBody_iff:
  "lazyBody d r \<longleftrightarrow>
     (\<exists>body rest. r = body @ 0x0A # d @ rest \<and> (rest = [] \<or> hd rest = 0x0A))"
proof (induction r)
  case Nil
  show ?case by (auto simp: closingHere_iff)
next
  case (Cons c cs)
  show ?case
  proof
    assume "lazyBody d (c # cs)"
    then consider "closingHere d (c # cs)" | "lazyBody d cs" by auto
    then show "\<exists>body rest. c # cs = body @ 0x0A # d @ rest \<and> (rest = [] \<or> hd rest = 0x0A)"
    proof cases
      case 1
      then obtain rest where "c # cs = [] @ 0x0A # d @ rest" "rest = [] \<or> hd rest = 0x0A"
        unfolding closingHere_iff by auto
      then show ?thesis by blast
    next
      case 2
      then obtain body rest where "cs = body @ 0x0A # d @ rest" "rest = [] \<or> hd rest = 0x0A"
        unfolding Cons.IH by blast
      then have "c # cs = (c # body) @ 0x0A # d @ rest" by simp
      with \<open>rest = [] \<or> hd rest = 0x0A\<close> show ?thesis by blast
    qed
  next
    assume "\<exists>body rest. c # cs = body @ 0x0A # d @ rest \<and> (rest = [] \<or> hd rest = 0x0A)"
    then obtain body rest where b: "c # cs = body @ 0x0A # d @ rest" "rest = [] \<or> hd rest = 0x0A"
      by blast
    show "lazyBody d (c # cs)"
    proof (cases body)
      case Nil
      with b have "closingHere d (c # cs)" unfolding closingHere_iff by auto
      then show ?thesis by simp
    next
      case (Cons x xs)
      with b have "cs = xs @ 0x0A # d @ rest" by simp
      with b(2) have "lazyBody d cs" unfolding Cons.IH by blast
      then show ?thesis by simp
    qed
  qed
qed

lemma blockKatexWith_iff:
  "blockKatexWith d s \<longleftrightarrow>
     (\<exists>body rest. s = d @ 0x0A # body @ 0x0A # d @ rest \<and> (rest = [] \<or> hd rest = 0x0A))"
proof
  assume a: "blockKatexWith d s"
  then obtain r where s: "s = (d @ [0x0A]) @ r"
    unfolding blockKatexWith_def startsWith_def prefix_def by blast
  then have "drop (Suc (length d)) s = r" by simp
  with a have "lazyBody d r" by (simp add: blockKatexWith_def)
  then obtain body rest where "r = body @ 0x0A # d @ rest" "rest = [] \<or> hd rest = 0x0A"
    unfolding lazyBody_iff by blast
  with s show "\<exists>body rest. s = d @ 0x0A # body @ 0x0A # d @ rest \<and> (rest = [] \<or> hd rest = 0x0A)"
    by auto
next
  assume "\<exists>body rest. s = d @ 0x0A # body @ 0x0A # d @ rest \<and> (rest = [] \<or> hd rest = 0x0A)"
  then obtain body rest where s: "s = d @ 0x0A # body @ 0x0A # d @ rest" "rest = [] \<or> hd rest = 0x0A"
    by blast
  then have "lazyBody d (body @ 0x0A # d @ rest)" unfolding lazyBody_iff by blast
  with s(1) show "blockKatexWith d s"
    by (simp add: blockKatexWith_def startsWith_def)
qed

lemma blockKatexRegexTest_shape: "blockKatexRegexTest s \<longleftrightarrow> blockMathShape s"
  unfolding blockKatexRegexTest_def blockMathShape_def blockKatexWith_iff by blast

lemma standaloneClosing_Some:
  assumes "standaloneClosing mergedBlocks currentBlock = Some merged" "last mergedBlocks \<noteq> []"
  shows "merged = butlast mergedBlocks @ [last mergedBlocks @ currentBlock] \<and>
         mergedBlocks \<noteq> [] \<and> trim currentBlock = js ''$$'' \<and>
         startsWith (trimStart (last mergedBlocks)) (js ''$$'') \<and>
         odd (dollarCount (last mergedBlocks)) \<and>
         blockKatexRegexTest (trim (last mergedBlocks @ currentBlock))"
  using assms by (auto simp: standaloneClosing_def Let_def odd_iff_mod_2_eq_one split: if_splits)

lemma endsWithClosing_Some:
  assumes "endsWithClosing mergedBlocks currentBlock = Some merged" "last mergedBlocks \<noteq> []"
  shows "merged = butlast mergedBlocks @ [last mergedBlocks @ currentBlock] \<and>
         mergedBlocks \<noteq> [] \<and> endsWith (trimEnd currentBlock) (js ''$$'') \<and>
         startsWith (trimStart (last mergedBlocks)) (js ''$$'') \<and>
         odd (dollarCount (last mergedBlocks)) \<and>
         blockKatexRegexTest (trim (last mergedBlocks @ currentBlock))"
  using assms by (auto simp: endsWithClosing_def Let_def odd_iff_mod_2_eq_one split: if_splits)

lemma mergeStep_cases:
  assumes "last mergedBlocks \<noteq> []"
  shows "mergeStep mergedBlocks m = mergedBlocks @ [raw m] \<or>
         (mergeStep mergedBlocks m = butlast mergedBlocks @ [last mergedBlocks @ raw m] \<and>
          mergedBlocks \<noteq> [] \<and>
          (trim (raw m) = js ''$$'' \<or> endsWith (trimEnd (raw m)) (js ''$$'')) \<and>
          startsWith (trimStart (last mergedBlocks)) (js ''$$'') \<and>
          odd (dollarCount (last mergedBlocks)) \<and>
          blockKatexRegexTest (trim (last mergedBlocks @ raw m)))"
proof (cases "type m = js ''blockKatex'' \<or> type m = js ''inlineKatex''")
  case True
  then show ?thesis by (simp add: mergeStep_def)
next
  case False
  show ?thesis
  proof (cases "standaloneClosing mergedBlocks (raw m)")
    case (Some merged)
    from standaloneClosing_Some[OF Some assms] Some False show ?thesis
      by (simp add: mergeStep_def)
  next
    case None
    note n1 = None
    show ?thesis
    proof (cases "endsWithClosing mergedBlocks (raw m)")
      case (Some merged)
      from endsWithClosing_Some[OF Some assms] Some n1 False show ?thesis
        by (simp add: mergeStep_def)
    next
      case None
      with n1 False show ?thesis by (simp add: mergeStep_def)
    qed
  qed
qed

lemma mergeStep_invalid:
  assumes "last mergedBlocks \<noteq> []" "\<not> blockKatexRegexTest (trim (last mergedBlocks @ raw m))"
  shows "mergeStep mergedBlocks m = mergedBlocks @ [raw m]"
  using mergeStep_cases[OF assms(1), of m] assms(2) by blast

lemma mergeStep_nonempty:
  assumes "[] \<notin> set mergedBlocks" "raw m \<noteq> []"
  shows "[] \<notin> set (mergeStep mergedBlocks m)"
proof (cases "mergedBlocks = []")
  case True
  then show ?thesis using assms
    by (simp add: mergeStep_def standaloneClosing_def endsWithClosing_def Let_def)
next
  case False
  then have l: "last mergedBlocks \<noteq> []" using assms(1) last_in_set by metis
  from mergeStep_cases[OF l, of m] show ?thesis
    using assms False by (auto dest: in_set_butlastD)
qed

lemma mergeBlocks_nonempty_aux:
  "[] \<notin> set acc \<Longrightarrow> \<forall>m \<in> set ms. raw m \<noteq> [] \<Longrightarrow> [] \<notin> set (foldl mergeStep acc ms)"
  by (induction ms arbitrary: acc) (simp_all add: mergeStep_nonempty)

lemma mergeBlocks_nonempty:
  "\<forall>m \<in> set ms. raw m \<noteq> [] \<Longrightarrow> [] \<notin> set (mergeBlocks ms)"
  unfolding mergeBlocks_def by (rule mergeBlocks_nonempty_aux) simp_all

lemma mergeBlocks_snoc: "mergeBlocks (ms @ [m]) = mergeStep (mergeBlocks ms) m"
  by (simp add: mergeBlocks_def)

lemma mergeStep_concat:
  assumes "[] \<notin> set mergedBlocks"
  shows "concat (mergeStep mergedBlocks m) = concat mergedBlocks @ raw m"
proof (cases "mergedBlocks = []")
  case True
  then show ?thesis
    by (simp add: mergeStep_def standaloneClosing_def endsWithClosing_def Let_def)
next
  case False
  then have l: "last mergedBlocks \<noteq> []" using assms last_in_set by metis
  from False have e: "butlast mergedBlocks @ [last mergedBlocks] = mergedBlocks"
    by simp
  have "concat (butlast mergedBlocks @ [last mergedBlocks @ raw m]) =
      concat (butlast mergedBlocks @ [last mergedBlocks]) @ raw m"
    by simp
  then have "concat (butlast mergedBlocks @ [last mergedBlocks @ raw m]) =
      concat mergedBlocks @ raw m"
    unfolding e .
  with mergeStep_cases[OF l, of m] show ?thesis by auto
qed

text \<open>
  Merging neither adds nor drops text: the merged blocks of tokens with non-empty raw text
  concatenate to the concatenation of the raw texts.
\<close>

lemma mergeBlocks_concat_aux:
  "[] \<notin> set acc \<Longrightarrow> \<forall>m \<in> set ms. raw m \<noteq> [] \<Longrightarrow>
     concat (foldl mergeStep acc ms) = concat acc @ concat (map raw ms)"
proof (induction ms arbitrary: acc)
  case Nil
  then show ?case by simp
next
  case (Cons m ms)
  then have "[] \<notin> set (mergeStep acc m)" by (simp add: mergeStep_nonempty)
  with Cons show ?case by (simp add: mergeStep_concat)
qed

lemma mergeBlocks_concat:
  "\<forall>m \<in> set ms. raw m \<noteq> [] \<Longrightarrow> concat (mergeBlocks ms) = concat (map raw ms)"
  unfolding mergeBlocks_def using mergeBlocks_concat_aux[of "[]" ms] by simp

text \<open>
  The guard \<^verbatim>\<open>if (!previousBlock) continue\<close> is taken only behind an empty block, and
  then the current block is dropped; no token of the lexer has an empty raw text.
\<close>

lemma mergeStep_empty_previous:
  "mergeStep [[]] (paragraphMeta (js ''$$'')) = [[]]"
  by (simp add: mergeStep_def standaloneClosing_def paragraphMeta_def extractMeta_def trim_def
      trimStart_def trimEnd_def isWhiteSpace_def js_def)

text \<open>
  Claim C4. The tokens of the lexer have non-empty raw text, and \<open>ms\<close> are the tokens
  walked so far. The next block \<open>raw m\<close> is either appended as a block of its own, or it
  is joined to the last merged block; it is joined only where that block starts (behind
  white space) with \<^verbatim>\<open>$$\<close> and holds an odd number of \<^verbatim>\<open>$$\<close>, the next block is
  \<^verbatim>\<open>$$\<close> alone or ends with \<^verbatim>\<open>$$\<close>, and the trimmed concatenation has the shape of
  block math. Where the concatenation has not that shape, both blocks stay as they are,
  one after the other.
\<close>

theorem merge_only_validated_block_math:
  "(\<forall>t \<in> set ms. raw t \<noteq> []) \<and> mergeBlocks ms \<noteq> [] \<longrightarrow>
     (mergeBlocks (ms @ [m]) \<noteq> mergeBlocks ms @ [raw m] \<longrightarrow>
        mergeBlocks (ms @ [m]) = butlast (mergeBlocks ms) @ [last (mergeBlocks ms) @ raw m] \<and>
        startsWith (trimStart (last (mergeBlocks ms))) (js ''$$'') \<and>
        odd (dollarCount (last (mergeBlocks ms))) \<and>
        (trim (raw m) = js ''$$'' \<or> endsWith (trimEnd (raw m)) (js ''$$'')) \<and>
        blockMathShape (trim (last (mergeBlocks ms) @ raw m))) \<and>
     (\<not> blockMathShape (trim (last (mergeBlocks ms) @ raw m)) \<longrightarrow>
        mergeBlocks (ms @ [m]) = mergeBlocks ms @ [raw m])"
proof (intro impI)
  assume a: "(\<forall>t \<in> set ms. raw t \<noteq> []) \<and> mergeBlocks ms \<noteq> []"
  then have "[] \<notin> set (mergeBlocks ms)" by (simp add: mergeBlocks_nonempty)
  with a have l: "last (mergeBlocks ms) \<noteq> []" using last_in_set by metis
  from mergeStep_cases[OF l, of m] show
    "(mergeBlocks (ms @ [m]) \<noteq> mergeBlocks ms @ [raw m] \<longrightarrow>
        mergeBlocks (ms @ [m]) = butlast (mergeBlocks ms) @ [last (mergeBlocks ms) @ raw m] \<and>
        startsWith (trimStart (last (mergeBlocks ms))) (js ''$$'') \<and>
        odd (dollarCount (last (mergeBlocks ms))) \<and>
        (trim (raw m) = js ''$$'' \<or> endsWith (trimEnd (raw m)) (js ''$$'')) \<and>
        blockMathShape (trim (last (mergeBlocks ms) @ raw m))) \<and>
     (\<not> blockMathShape (trim (last (mergeBlocks ms) @ raw m)) \<longrightarrow>
        mergeBlocks (ms @ [m]) = mergeBlocks ms @ [raw m])"
    unfolding mergeBlocks_snoc blockKatexRegexTest_shape by blast
qed

lemmas merge_eval =
  mergeBlocks_def mergeStep_def standaloneClosing_def endsWithClosing_def paragraphMeta_def
  extractMeta_def trim_def trimStart_def trimEnd_def isWhiteSpace_def startsWith_def endsWith_def
  blockKatexRegexTest_def blockKatexWith_def closingHere_def js_def Let_def

lemma merge_example_open:
  "mergeBlocks [paragraphMeta (js ''$$'' @ 0x0A # js ''x'' @ [0x0A])] = [js ''$$'' @ 0x0A # js ''x'' @ [0x0A]]"
  by (simp add: merge_eval)

lemma merge_example_merged:
  "mergeBlocks ([paragraphMeta (js ''$$'' @ 0x0A # js ''x'' @ [0x0A])] @ [paragraphMeta (js ''$$'')]) =
     [js ''$$'' @ 0x0A # js ''x'' @ 0x0A # js ''$$'']"
  by (simp add: merge_eval)

lemma merge_example_inline:
  "mergeBlocks [paragraphMeta (js ''$$x'')] = [js ''$$x'']"
  by (simp add: merge_eval)

lemma merge_example_separate:
  "mergeBlocks ([paragraphMeta (js ''$$x'')] @ [paragraphMeta (js ''$$'')]) = [js ''$$x'', js ''$$'']"
  by (simp add: merge_eval)

lemma merge_example_not_shape: "\<not> blockMathShape (trim (js ''$$x'' @ js ''$$''))"
  unfolding blockKatexRegexTest_shape[symmetric] by (simp add: merge_eval)

lemma paragraphMeta_raw: "raw (paragraphMeta r) = r"
  by (simp add: paragraphMeta_def extractMeta_def)

text \<open>
  Claim C4 at two inputs: the block \<^verbatim>\<open>$$\nx\n\<close> followed by \<^verbatim>\<open>$$\<close> is merged into
  one block of the shape of block math; the block \<^verbatim>\<open>$$x\<close> followed by \<^verbatim>\<open>$$\<close> is
  not, and both blocks are kept.
\<close>

theorem merge_only_validated_block_math_witness:
  "raw (paragraphMeta (js ''$$'' @ 0x0A # js ''x'' @ [0x0A])) \<noteq> [] \<and>
   mergeBlocks [paragraphMeta (js ''$$'' @ 0x0A # js ''x'' @ [0x0A])] \<noteq> [] \<and>
   mergeBlocks ([paragraphMeta (js ''$$'' @ 0x0A # js ''x'' @ [0x0A])] @ [paragraphMeta (js ''$$'')]) \<noteq>
     mergeBlocks [paragraphMeta (js ''$$'' @ 0x0A # js ''x'' @ [0x0A])] @ [raw (paragraphMeta (js ''$$''))] \<and>
   mergeBlocks ([paragraphMeta (js ''$$'' @ 0x0A # js ''x'' @ [0x0A])] @ [paragraphMeta (js ''$$'')]) =
     [js ''$$'' @ 0x0A # js ''x'' @ 0x0A # js ''$$''] \<and>
   blockMathShape (trim (js ''$$'' @ 0x0A # js ''x'' @ 0x0A # js ''$$'')) \<and>
   raw (paragraphMeta (js ''$$x'')) \<noteq> [] \<and>
   mergeBlocks [paragraphMeta (js ''$$x'')] \<noteq> [] \<and>
   \<not> blockMathShape (trim (js ''$$x'' @ js ''$$'')) \<and>
   mergeBlocks ([paragraphMeta (js ''$$x'')] @ [paragraphMeta (js ''$$'')]) = [js ''$$x'', js ''$$'']"
proof -
  have n1: "\<forall>t \<in> set [paragraphMeta (js ''$$'' @ 0x0A # js ''x'' @ [0x0A])]. raw t \<noteq> []"
    and n2: "\<forall>t \<in> set [paragraphMeta (js ''$$x'')]. raw t \<noteq> []"
    by (simp_all add: paragraphMeta_raw js_def)
  have d: "mergeBlocks ([paragraphMeta (js ''$$'' @ 0x0A # js ''x'' @ [0x0A])] @ [paragraphMeta (js ''$$'')]) \<noteq>
     mergeBlocks [paragraphMeta (js ''$$'' @ 0x0A # js ''x'' @ [0x0A])] @ [raw (paragraphMeta (js ''$$''))]"
    unfolding merge_example_merged merge_example_open by simp
  from merge_only_validated_block_math[of "[paragraphMeta (js ''$$'' @ 0x0A # js ''x'' @ [0x0A])]"
      "paragraphMeta (js ''$$'')"] n1 d
  have s: "blockMathShape (trim (js ''$$'' @ 0x0A # js ''x'' @ 0x0A # js ''$$''))"
    unfolding merge_example_open by (simp add: paragraphMeta_raw js_def)
  from merge_only_validated_block_math[of "[paragraphMeta (js ''$$x'')]" "paragraphMeta (js ''$$'')"]
    n2 merge_example_not_shape
  have p: "mergeBlocks ([paragraphMeta (js ''$$x'')] @ [paragraphMeta (js ''$$'')]) = [js ''$$x'', js ''$$'']"
    unfolding merge_example_inline by (simp add: paragraphMeta_raw)
  show ?thesis
    using n1 n2 d s p merge_example_not_shape merge_example_merged
    by (simp add: merge_example_open merge_example_inline)
qed

section \<open>Properties of the link rule\<close>

lemma incomplete_link_example:
  "repairIncompleteLink (js ''Text with incomplete [link'') =
     js ''Text with incomplete '' @ markdownLink (js ''link'') incompleteLink"
  by (simp add: repairIncompleteLink_def linkOpener_def splitLast_def js_def markdownLink_def
      incompleteLink_def)

text \<open>
  The other cases of the rule at inputs of their own: an unfinished destination, also one
  with a bracket in it, is replaced by the sentinel; an unterminated image, a complete
  link and a text without an opener are left as they are.
\<close>

lemma incomplete_destination_example:
  "repairIncompleteLink (js ''See [site](http://[::1]:8080/pa'') =
     js ''See '' @ markdownLink (js ''site'') incompleteLink"
  by (simp add: repairIncompleteLink_def linkOpener_def splitLast_def js_def markdownLink_def
      incompleteLink_def)

lemma incomplete_image_example:
  "repairIncompleteLink (js ''An image ![alt'') = js ''An image ![alt''"
  by (simp add: repairIncompleteLink_def linkOpener_def splitLast_def js_def)

lemma complete_link_example:
  "repairIncompleteLink (js ''A [link](https://example.com/) here'') =
     js ''A [link](https://example.com/) here''"
  by (simp add: repairIncompleteLink_def linkOpener_def splitLast_def js_def)

lemma transformUrl_incompleteLink:
  "transformUrl newURL allowedPrefixes defaultOrigin (JString incompleteLink) = Some incompleteLink"
  by (simp add: transformUrl_def incompleteLink_def js_def)

text \<open>
  Claim C6. Repairing \<^verbatim>\<open>Text with incomplete [link\<close> gives the text followed by a
  complete link with the visible text \<^verbatim>\<open>link\<close> and the sentinel as its destination
  (on the link rule modelled from the spec). For every parser, every list of allowed
  prefixes and every default origin, the transformer applied to the sentinel returns the
  sentinel, unchanged.
\<close>

theorem incomplete_link_sentinel_round_trip:
  "repairIncompleteLink (js ''Text with incomplete [link'') =
     js ''Text with incomplete '' @ markdownLink (js ''link'') incompleteLink \<and>
   markdownLink (js ''link'') incompleteLink = js ''[link](streamdown:incomplete-link)'' \<and>
   transformUrl newURL allowedPrefixes defaultOrigin (JString (js ''streamdown:incomplete-link'')) =
     Some (js ''streamdown:incomplete-link'')"
  using incomplete_link_example transformUrl_incompleteLink[of newURL allowedPrefixes defaultOrigin]
  by (simp add: incompleteLink_def markdownLink_def js_def)

text \<open>
  Claim C6 at three configurations: one allowed prefix with a default origin, the wildcard
  alone, and no allowed prefix at all.
\<close>

theorem incomplete_link_sentinel_round_trip_witness:
  "transformUrl exampleParser [js ''https://example.com/''] (Some (js ''https://example.com''))
     (JString (js ''streamdown:incomplete-link'')) = Some (js ''streamdown:incomplete-link'') \<and>
   transformUrl exampleParser [js ''*''] None
     (JString (js ''streamdown:incomplete-link'')) = Some (js ''streamdown:incomplete-link'') \<and>
   transformUrl exampleParser [] None
     (JString (js ''streamdown:incomplete-link'')) = Some (js ''streamdown:incomplete-link'')"
  using incomplete_link_sentinel_round_trip[of exampleParser "[js ''https://example.com/'']"
      "Some (js ''https://example.com'')"]
    incomplete_link_sentinel_round_trip[of exampleParser "[js ''*'']" None]
    incomplete_link_sentinel_round_trip[of exampleParser "[]" None]
  by blast

end
